theory Spec2Isabelle
  imports Complex_Main "HOL-Library.Sublist"
begin

section \<open>Data model of the RAG orchestrator\<close>

text \<open>
  The development embeds \<^verbatim>\<open>src/lib/rag/services/rag-orchestrator.service.ts\<close>.
  JavaScript numbers that the orchestrator only compares or prints (page numbers, page
  counts) are integers here; scores are rationals. Optional fields are \<open>option\<close>s.
  Console logging and the optional metadata tracker are observers with no influence on
  what the orchestrator calls or returns, and are left out.
\<close>

datatype SearchStrategy =
  FastVectorSearch | StandardVectorSearch | ExpandedSearch | PageQueryStrategy

datatype ComplexityLevel = low | medium | high

record ComplexityAnalysis =
  complexityScore :: rat
  complexityLevel :: ComplexityLevel
  wordCount :: nat

datatype Intent =
  extraction | summarization | comparison | concept_explanation | analysis
  | verification | general_inquiry

text \<open>\<^verbatim>\<open>AccessibleDocument\<close>: the fields the orchestrator reads.\<close>

record AccessibleDocument =
  doc_documentId :: string
  documentName :: "string option"
  numPages :: "int option"

record SearchResult =
  documentId :: string
  chunkId :: string
  content :: string
  similarity :: "rat option"
  metadata :: string

record GradedDocument =
  graded_documentId :: string
  graded_chunkId :: string
  relevanceScore :: rat
  confidence :: rat
  reasoning :: string
  isRelevant :: bool
  suggestedWeight :: rat
  originalContent :: string
  graded_metadata :: string

text \<open>
  \<^verbatim>\<open>let relevantDocuments: any[]\<close> holds graded documents on the normal path and the
  reranked search results themselves when grading failed.
\<close>

datatype RelevantDocument = Graded GradedDocument | Raw SearchResult

text \<open>Reading \<^verbatim>\<open>.isRelevant\<close> of such an element; \<open>None\<close> is \<^verbatim>\<open>undefined\<close>.\<close>

fun isRelevant_of :: "RelevantDocument \<Rightarrow> bool option" where
  "isRelevant_of (Graded g) = Some (isRelevant g)"
| "isRelevant_of (Raw r) = None"

record QueryRewriting =
  rewrittenQueries :: "string option list option"
  hydeAnswer :: "string option"
  requiresHyde :: bool

record QueryExtraction =
  pageNumbers :: "int list"
  keywords' :: "string list"
  queryRewriting :: "QueryRewriting option"

text \<open>
  An abort signal is described by the time, in milliseconds after the call began, at
  which it fires, if it ever does.
\<close>

record AbortSignal =
  abortsAt :: "nat option"

definition aborted :: "AbortSignal \<Rightarrow> nat \<Rightarrow> bool" where
  "aborted s t = (case abortsAt s of None \<Rightarrow> False | Some a \<Rightarrow> a \<le> t)"

definition AbortSignal_timeout :: "nat \<Rightarrow> AbortSignal" where
  "AbortSignal_timeout ms = \<lparr>abortsAt = Some ms\<rparr>"

type_synonym UIMessage = string
type_synonym Source = string

datatype Response = StreamingResponse string

record PipelineContext =
  query :: string
  dataroomId :: string
  indexedDocuments :: "AccessibleDocument list"
  messages :: "UIMessage list"
  signal :: "AbortSignal option"
  complexityAnalysis :: "ComplexityAnalysis option"
  queryExtraction :: "QueryExtraction option"
  intent :: Intent
  chatSessionId :: "string option"

text \<open>A thrown JavaScript value: an \<^verbatim>\<open>Error\<close> instance with its name and message, or anything else.\<close>

datatype thrown = Error string string | NonError string

fun instanceofError :: "thrown \<Rightarrow> bool" where
  "instanceofError (Error n m) = True"
| "instanceofError (NonError v) = False"

fun name :: "thrown \<Rightarrow> string" where
  "name (Error n m) = n"
| "name (NonError v) = []"

fun message :: "thrown \<Rightarrow> string" where
  "message (Error n m) = m"
| "message (NonError v) = []"

section \<open>String helpers of the JavaScript runtime\<close>

text \<open>\<^verbatim>\<open>String.prototype.includes\<close>.\<close>

fun String_includes :: "string \<Rightarrow> string \<Rightarrow> bool" where
  "String_includes [] sub = (sub = [])"
| "String_includes (c # cs) sub = (if prefix sub (c # cs) then True else String_includes cs sub)"

text \<open>\<^verbatim>\<open>Array.prototype.join\<close>.\<close>

fun join :: "string list \<Rightarrow> string \<Rightarrow> string" where
  "join [] sep = []"
| "join [x] sep = x"
| "join (x # y # ys) sep = x @ sep @ join (y # ys) sep"

text \<open>\<^verbatim>\<open>Number.prototype.toString\<close> on an integer.\<close>

definition digit :: "nat \<Rightarrow> char" where
  "digit d = ''0123456789'' ! d"

fun digits :: "nat \<Rightarrow> string" where
  "digits n = (if n < 10 then [digit n] else digits (n div 10) @ [digit (n mod 10)])"

declare digits.simps [simp del]

definition toString :: "int \<Rightarrow> string" where
  "toString i = (if i < 0 then CHR ''-'' # digits (nat (- i)) else digits (nat i))"

text \<open>\<^verbatim>\<open>String.prototype.trim\<close>, on the ASCII white space.\<close>

definition isWhitespace :: "char \<Rightarrow> bool" where
  "isWhitespace c = (c \<in> set [CHR '' '', CHR 0x09, CHR 0x0A, CHR 0x0B, CHR 0x0C, CHR 0x0D])"

definition trim :: "string \<Rightarrow> string" where
  "trim s = rev (dropWhile isWhitespace (rev (dropWhile isWhitespace s)))"

text \<open>
  \<^verbatim>\<open>Array.from(new Set(xs))\<close>: a set keeps insertion order, and adding a member it
  already has changes nothing.
\<close>

definition Set_add :: "string list \<Rightarrow> string \<Rightarrow> string list" where
  "Set_add members x = (if x \<in> set members then members else members @ [x])"

definition Array_from_Set :: "string list \<Rightarrow> string list" where
  "Array_from_Set xs = foldl Set_add [] xs"

section \<open>Query variants\<close>

definition MAX_STANDARD_QUERIES :: nat where "MAX_STANDARD_QUERIES = 15"
definition MAX_EXPANDED_QUERIES :: nat where "MAX_EXPANDED_QUERIES = 20"
definition MAX_FAST_QUERIES :: nat where "MAX_FAST_QUERIES = 3"

fun getMaxQueriesForStrategy :: "SearchStrategy \<Rightarrow> nat" where
  "getMaxQueriesForStrategy FastVectorSearch = MAX_FAST_QUERIES"
| "getMaxQueriesForStrategy StandardVectorSearch = MAX_STANDARD_QUERIES"
| "getMaxQueriesForStrategy ExpandedSearch = MAX_EXPANDED_QUERIES"
| "getMaxQueriesForStrategy PageQueryStrategy = MAX_STANDARD_QUERIES"

text \<open>\<^verbatim>\<open>context.queryExtraction?.queryRewriting\<close>.\<close>

definition rewritingOf :: "PipelineContext \<Rightarrow> QueryRewriting option" where
  "rewritingOf ctx = (case queryExtraction ctx of None \<Rightarrow> None | Some qe \<Rightarrow> queryRewriting qe)"

text \<open>
  The rewritten queries appended to the original one:
  \<^verbatim>\<open>.slice(0, maxQueries - 1).filter(query => query !== undefined)\<close>, when the list is
  present and not empty.
\<close>

definition rewrittenPart :: "PipelineContext \<Rightarrow> nat \<Rightarrow> string list" where
  "rewrittenPart ctx maxQueries =
     (case rewritingOf ctx of
        None \<Rightarrow> []
      | Some qr \<Rightarrow>
          (case rewrittenQueries qr of
             None \<Rightarrow> []
           | Some rq \<Rightarrow> List.map_filter id (take (maxQueries - 1) rq)))"

text \<open>The hypothetical answer appended for \<open>ExpandedSearch\<close> when it is non-empty and required.\<close>

definition hydePart :: "PipelineContext \<Rightarrow> SearchStrategy \<Rightarrow> string list" where
  "hydePart ctx strategy =
     (case rewritingOf ctx of
        None \<Rightarrow> []
      | Some qr \<Rightarrow>
          (case hydeAnswer qr of
             None \<Rightarrow> []
           | Some h \<Rightarrow>
               if strategy = ExpandedSearch \<and> h \<noteq> [] \<and> requiresHyde qr then [h] else []))"

definition buildQueriesForStrategy :: "PipelineContext \<Rightarrow> SearchStrategy \<Rightarrow> string list" where
  "buildQueriesForStrategy ctx strategy =
     (let maxQueries = getMaxQueriesForStrategy strategy;
          queries = [query ctx] @ rewrittenPart ctx maxQueries @ hydePart ctx strategy
      in Array_from_Set (filter (\<lambda>q. q \<noteq> []) (map trim queries)))"

section \<open>Removing duplicate chunks\<close>

text \<open>
  \<^verbatim>\<open>removeDuplicateResults\<close>: a filter whose predicate consults and extends the set
  \<^verbatim>\<open>seen\<close> of chunk ids.
\<close>

fun filterSeen :: "string set \<Rightarrow> SearchResult list \<Rightarrow> SearchResult list" where
  "filterSeen seen [] = []"
| "filterSeen seen (r # rs) =
     (if chunkId r \<in> seen then filterSeen seen rs
      else r # filterSeen (insert (chunkId r) seen) rs)"

definition removeDuplicateResults :: "SearchResult list \<Rightarrow> SearchResult list" where
  "removeDuplicateResults results = filterSeen {} results"

section \<open>Page validation\<close>

record PageValidation =
  isValid :: bool
  errorMessage :: "string option"

text \<open>\<^verbatim>\<open>doc.numPages || 0\<close> and \<^verbatim>\<open>doc.documentName || 'Unknown Document'\<close>.\<close>

definition numPagesOr0 :: "AccessibleDocument \<Rightarrow> int" where
  "numPagesOr0 doc = (case numPages doc of None \<Rightarrow> 0 | Some n \<Rightarrow> n)"

definition documentNameOrUnknown :: "AccessibleDocument \<Rightarrow> string" where
  "documentNameOrUnknown doc =
     (case documentName doc of
        None \<Rightarrow> ''Unknown Document''
      | Some n \<Rightarrow> if n = [] then ''Unknown Document'' else n)"

text \<open>
  The message of a failed range check. \<^verbatim>\<open>plural\<close> is \<open>False\<close> for the branch
  \<^verbatim>\<open>invalidPages.length === 1\<close>.
\<close>

definition rangeMessage :: "bool \<Rightarrow> string \<Rightarrow> string \<Rightarrow> int \<Rightarrow> string" where
  "rangeMessage plural invalidPageList documentNames maxPagesInDocuments =
     (if plural then ''Pages '' else ''Page '') @ invalidPageList
     @ (if plural then '' don't exist in your documents. The available documents (''
        else '' doesn't exist in your documents. The available documents ('')
     @ documentNames @ '') have '' @ toString maxPagesInDocuments @ '' page''
     @ (if maxPagesInDocuments = 1 then [] else ''s'')
     @ '' (pages 1-'' @ toString maxPagesInDocuments
     @ ''). Try asking about content within that range.''"

definition validatePagesAgainstDocuments ::
  "int list \<Rightarrow> AccessibleDocument list \<Rightarrow> PageValidation" where
  "validatePagesAgainstDocuments requestedPages docs =
     (if requestedPages = [] then \<lparr>isValid = True, errorMessage = None\<rparr>
      else
        (case docs of
           [] \<Rightarrow>
             \<lparr>isValid = False,
              errorMessage = Some ''No documents available to validate pages against''\<rparr>
         | d # ds \<Rightarrow>
             (let maxPagesInDocuments = fold max (map numPagesOr0 ds) (numPagesOr0 d) in
              if maxPagesInDocuments = 0 then
                \<lparr>isValid = False,
                 errorMessage = Some ''Documents have no page information available''\<rparr>
              else
                (let invalidPages =
                       filter (\<lambda>page. page < 1 \<or> page > maxPagesInDocuments) requestedPages in
                 if invalidPages = [] then \<lparr>isValid = True, errorMessage = None\<rparr>
                 else
                   (let invalidPageList = join (map toString invalidPages) '', '';
                        documentNames = join (map documentNameOrUnknown docs) '', ''
                    in \<lparr>isValid = False,
                        errorMessage =
                          Some (rangeMessage (length invalidPages \<noteq> 1) invalidPageList
                                  documentNames maxPagesInDocuments)\<rparr>)))))"

section \<open>Metadata filter\<close>

record MetadataFilter =
  filter_documentIds :: "string list option"
  pageRanges :: "string list option"
  filter_dataroomId :: "string option"

definition Object_keys_length :: "MetadataFilter \<Rightarrow> nat" where
  "Object_keys_length f =
     (if filter_documentIds f = None then 0 else 1)
     + (if pageRanges f = None then 0 else 1)
     + (if filter_dataroomId f = None then 0 else 1)"

text \<open>\<^verbatim>\<open>pageNumbers && pageNumbers.length > 0\<close> on \<^verbatim>\<open>context.queryExtraction?.pageNumbers\<close>.\<close>

definition hasPageNumbers :: "PipelineContext \<Rightarrow> bool" where
  "hasPageNumbers ctx =
     (case queryExtraction ctx of None \<Rightarrow> False | Some qe \<Rightarrow> pageNumbers qe \<noteq> [])"

definition buildMetadataFilter :: "PipelineContext \<Rightarrow> MetadataFilter option" where
  "buildMetadataFilter ctx =
     (let f0 = \<lparr>filter_documentIds = None, pageRanges = None,
                filter_dataroomId = Some (dataroomId ctx)\<rparr>;
          f1 = (if indexedDocuments ctx \<noteq> []
                then f0\<lparr>filter_documentIds := Some (map doc_documentId (indexedDocuments ctx))\<rparr>
                else f0);
          f2 = (case queryExtraction ctx of
                  None \<Rightarrow> f1
                | Some qe \<Rightarrow>
                    if pageNumbers qe \<noteq> []
                    then f1\<lparr>pageRanges := Some (map toString (pageNumbers qe))\<rparr>
                    else f1)
      in if Object_keys_length f2 > 1 then Some f2 else None)"

section \<open>Collaborators and the record of their invocations\<close>

record SearchConfig =
  topK :: nat
  similarityThreshold :: rat
  timeoutMs :: nat

text \<open>\<^verbatim>\<open>ragConfig.search\<close>, supplied by the configuration manager.\<close>

record RAGSearchSettings =
  fastTopK :: nat
  fastSimilarityThreshold :: rat
  standardTopK :: nat
  standardSimilarityThreshold :: rat
  expandedTopK :: nat
  expandedSimilarityThreshold :: rat
  pageQueryTopK :: nat
  pageQuerySimilarityThreshold :: rat
  pageQueryTimeoutMs :: nat

text \<open>\<^verbatim>\<open>getSearchConfig\<close> over the table built by \<^verbatim>\<open>initializeSearchConfigs\<close>.\<close>

fun getSearchConfig :: "RAGSearchSettings \<Rightarrow> SearchStrategy \<Rightarrow> SearchConfig" where
  "getSearchConfig cfg FastVectorSearch =
     \<lparr>topK = fastTopK cfg, similarityThreshold = fastSimilarityThreshold cfg, timeoutMs = 45000\<rparr>"
| "getSearchConfig cfg StandardVectorSearch =
     \<lparr>topK = standardTopK cfg, similarityThreshold = standardSimilarityThreshold cfg,
      timeoutMs = 50000\<rparr>"
| "getSearchConfig cfg ExpandedSearch =
     \<lparr>topK = expandedTopK cfg, similarityThreshold = expandedSimilarityThreshold cfg,
      timeoutMs = 55000\<rparr>"
| "getSearchConfig cfg PageQueryStrategy =
     \<lparr>topK = pageQueryTopK cfg, similarityThreshold = pageQuerySimilarityThreshold cfg,
      timeoutMs = pageQueryTimeoutMs cfg\<rparr>"

text \<open>
  The services the orchestrator calls are not part of it: each is a function from the
  arguments of the call to its outcome, a thrown value on the left or the result on the
  right. The search service also tells when its promise settles (milliseconds after the
  call), which decides the race against the per-query timer.
\<close>

record Environment =
  ragSearchSettings :: RAGSearchSettings
  performVectorSearchInternal ::
    "string \<Rightarrow> string \<Rightarrow> string list \<Rightarrow> AbortSignal option \<Rightarrow> nat \<times> rat
       \<Rightarrow> MetadataFilter option \<Rightarrow> nat \<times> (thrown + SearchResult list)"
  rerankResults ::
    "string \<Rightarrow> SearchResult list \<Rightarrow> AbortSignal option \<Rightarrow> thrown + SearchResult list"
  compressContext ::
    "SearchResult list \<Rightarrow> string \<Rightarrow> AbortSignal option \<Rightarrow> ComplexityAnalysis option
       \<Rightarrow> thrown + string"
  gradeAndFilterDocuments ::
    "string \<Rightarrow> SearchResult list \<Rightarrow> ComplexityAnalysis option \<Rightarrow> thrown + GradedDocument list"
  buildSources ::
    "RelevantDocument list \<Rightarrow> SearchResult list \<Rightarrow> AccessibleDocument list
       \<Rightarrow> thrown + Source list"
  generateAnswer ::
    "string \<Rightarrow> UIMessage list \<Rightarrow> string \<Rightarrow> Source list \<Rightarrow> AbortSignal option
       \<Rightarrow> string option \<Rightarrow> int list option \<Rightarrow> thrown + Response"
  createFallbackResponse :: "string \<Rightarrow> thrown + Response"

text \<open>One entry per invocation of a collaborator, with the arguments passed.\<close>

datatype call =
    Search string string "string list" "AbortSignal option" "nat \<times> rat" "MetadataFilter option"
  | Rerank string "SearchResult list" "AbortSignal option"
  | Compress "SearchResult list" string "AbortSignal option" "ComplexityAnalysis option"
  | Grade string "SearchResult list" "ComplexityAnalysis option"
  | BuildSources "RelevantDocument list" "SearchResult list" "AccessibleDocument list"
  | GenerateAnswer string "UIMessage list" string "Source list" "AbortSignal option"
      "string option" "int list option"
  | Fallback string

fun isSearch :: "call \<Rightarrow> bool" where
  "isSearch (Search q d ids sg opts f) = True"
| "isSearch c = False"

fun isRefinement :: "call \<Rightarrow> bool" where
  "isRefinement (Rerank q rs sg) = True"
| "isRefinement (Compress rs q sg ca) = True"
| "isRefinement (Grade q rs ca) = True"
| "isRefinement c = False"

type_synonym 'a outcome = "(thrown + 'a) \<times> call list"

definition callFallback :: "Environment \<Rightarrow> string \<Rightarrow> call list \<Rightarrow> Response outcome" where
  "callFallback env msg tr = (createFallbackResponse env msg, tr @ [Fallback msg])"

section \<open>Concurrent retrieval\<close>

text \<open>
  \<^verbatim>\<open>Promise.race\<close> of a call against a timer of \<open>ms\<close> milliseconds: the call wins
  when it settles first.
\<close>

definition raceAgainstTimeout :: "nat \<Rightarrow> nat \<times> (thrown + 'a) \<Rightarrow> thrown + 'a" where
  "raceAgainstTimeout ms settled =
     (if fst settled < ms then snd settled
      else Inl (Error ''Error'' (''Query timeout after '' @ toString (int ms) @ ''ms'')))"

text \<open>\<^verbatim>\<open>useMetadataFilter ? metadataFilter || undefined : undefined\<close>.\<close>

definition filterArgument :: "PipelineContext \<Rightarrow> MetadataFilter option" where
  "filterArgument ctx =
     (let metadataFilter = buildMetadataFilter ctx;
          useMetadataFilter = (hasPageNumbers ctx \<and> metadataFilter \<noteq> None)
      in if useMetadataFilter then metadataFilter else None)"

definition searchCall :: "Environment \<Rightarrow> PipelineContext \<Rightarrow> SearchStrategy \<Rightarrow> string \<Rightarrow> call" where
  "searchCall env ctx strategy q =
     (let config = getSearchConfig (ragSearchSettings env) strategy;
          docIds = map doc_documentId (indexedDocuments ctx)
      in Search q (dataroomId ctx) docIds (signal ctx) (topK config, similarityThreshold config)
           (filterArgument ctx))"

text \<open>One variant: its failure or lost race is caught and gives the empty list.\<close>

definition searchVariant ::
  "Environment \<Rightarrow> PipelineContext \<Rightarrow> SearchStrategy \<Rightarrow> string \<Rightarrow> SearchResult list" where
  "searchVariant env ctx strategy q =
     (let config = getSearchConfig (ragSearchSettings env) strategy;
          docIds = map doc_documentId (indexedDocuments ctx)
      in case raceAgainstTimeout (timeoutMs config)
                (performVectorSearchInternal env q (dataroomId ctx) docIds (signal ctx)
                   (topK config, similarityThreshold config) (filterArgument ctx)) of
           Inr results \<Rightarrow> results
         | Inl e \<Rightarrow> [])"

definition performVectorSearch ::
  "Environment \<Rightarrow> string list \<Rightarrow> PipelineContext \<Rightarrow> SearchStrategy \<Rightarrow> call list
     \<Rightarrow> SearchResult list \<times> call list" where
  "performVectorSearch env searchQueries ctx strategy tr =
     (let queryResults = map (searchVariant env ctx strategy) searchQueries;
          allResults = concat queryResults;
          uniqueResults = removeDuplicateResults allResults
      in (uniqueResults, tr @ map (searchCall env ctx strategy) searchQueries))"

section \<open>Refinement, source building and answer generation\<close>

text \<open>\<^verbatim>\<open>result.similarity || d\<close>.\<close>

definition similarityOr :: "SearchResult \<Rightarrow> rat \<Rightarrow> rat" where
  "similarityOr r d = (case similarity r of None \<Rightarrow> d | Some s \<Rightarrow> if s = 0 then d else s)"

text \<open>The graded documents synthesised on the fast path and on the page path.\<close>

definition fastGraded :: "SearchResult \<Rightarrow> GradedDocument" where
  "fastGraded r =
     \<lparr>graded_documentId = documentId r, graded_chunkId = chunkId r,
      relevanceScore = similarityOr r (8 / 10), confidence = 8 / 10,
      reasoning = ''Fast path optimization'', isRelevant = True, suggestedWeight = 8 / 10,
      originalContent = content r, graded_metadata = metadata r\<rparr>"

definition pageGraded :: "SearchResult \<Rightarrow> GradedDocument" where
  "pageGraded r =
     \<lparr>graded_documentId = documentId r, graded_chunkId = chunkId r,
      relevanceScore = similarityOr r (9 / 10), confidence = 9 / 10,
      reasoning = ''Direct page match'', isRelevant = True, suggestedWeight = 1,
      originalContent = content r, graded_metadata = metadata r\<rparr>"

text \<open>\<^verbatim>\<open>results.map(r => r.content).join('\n\n')\<close>.\<close>

definition rawContext :: "SearchResult list \<Rightarrow> string" where
  "rawContext results = join (map content results) [CHR 0x0A, CHR 0x0A]"

text \<open>\<^verbatim>\<open>context.queryExtraction?.pageNumbers\<close>.\<close>

definition pageNumbersOf :: "PipelineContext \<Rightarrow> int list option" where
  "pageNumbersOf ctx = (case queryExtraction ctx of None \<Rightarrow> None | Some qe \<Rightarrow> Some (pageNumbers qe))"

definition callBuildSources ::
  "Environment \<Rightarrow> RelevantDocument list \<Rightarrow> SearchResult list \<Rightarrow> AccessibleDocument list
     \<Rightarrow> call list \<Rightarrow> (Source list) outcome" where
  "callBuildSources env relevantDocuments results docs tr =
     (buildSources env relevantDocuments results docs,
      tr @ [BuildSources relevantDocuments results docs])"

definition callGenerateAnswer ::
  "Environment \<Rightarrow> PipelineContext \<Rightarrow> string \<Rightarrow> Source list \<Rightarrow> int list option \<Rightarrow> call list
     \<Rightarrow> Response outcome" where
  "callGenerateAnswer env ctx contextText sources validPages tr =
     (generateAnswer env contextText (messages ctx) (query ctx) sources (signal ctx)
        (chatSessionId ctx) validPages,
      tr @ [GenerateAnswer contextText (messages ctx) (query ctx) sources (signal ctx)
              (chatSessionId ctx) validPages])"

text \<open>
  Phase 3. \<^verbatim>\<open>Promise.all\<close> starts reranking and compression; when either rejects, the
  handler reranks again and takes the uncompressed contents of \<^verbatim>\<open>searchResults\<close>.
\<close>

definition rerankAndCompress ::
  "Environment \<Rightarrow> PipelineContext \<Rightarrow> SearchResult list \<Rightarrow> call list
     \<Rightarrow> (SearchResult list \<times> string) outcome" where
  "rerankAndCompress env ctx searchResults tr =
     (let rerankCall = Rerank (query ctx) searchResults (signal ctx);
          compressCall =
            Compress searchResults (query ctx) (signal ctx) (complexityAnalysis ctx);
          tr1 = tr @ [rerankCall, compressCall]
      in case (rerankResults env (query ctx) searchResults (signal ctx),
               compressContext env searchResults (query ctx) (signal ctx)
                 (complexityAnalysis ctx)) of
           (Inr rerankedResults, Inr compressed) \<Rightarrow> (Inr (rerankedResults, compressed), tr1)
         | _ \<Rightarrow>
             (case rerankResults env (query ctx) searchResults (signal ctx) of
                Inl e \<Rightarrow> (Inl e, tr1 @ [rerankCall])
              | Inr rerankedResults \<Rightarrow>
                  (Inr (rerankedResults, rawContext searchResults), tr1 @ [rerankCall])))"

text \<open>Phase 4. A grading failure is caught and the reranked results are used as they are.\<close>

definition gradeDocuments ::
  "Environment \<Rightarrow> PipelineContext \<Rightarrow> SearchResult list \<Rightarrow> call list
     \<Rightarrow> RelevantDocument list \<times> call list" where
  "gradeDocuments env ctx rerankedResults tr =
     (case gradeAndFilterDocuments env (query ctx) rerankedResults (complexityAnalysis ctx) of
        Inr relevantDocuments \<Rightarrow> map Graded relevantDocuments
      | Inl e \<Rightarrow> map Raw rerankedResults,
      tr @ [Grade (query ctx) rerankedResults (complexityAnalysis ctx)])"

definition executeSharedProcessingPipeline ::
  "Environment \<Rightarrow> PipelineContext \<Rightarrow> SearchResult list \<Rightarrow> SearchStrategy \<Rightarrow> call list
     \<Rightarrow> Response outcome" where
  "executeSharedProcessingPipeline env ctx searchResults strategyName tr =
     (if strategyName = FastVectorSearch then
        (let gradedDocuments = map (\<lambda>r. Graded (fastGraded r)) searchResults in
         case callBuildSources env gradedDocuments searchResults (indexedDocuments ctx) tr of
           (Inl e, tr1) \<Rightarrow> (Inl e, tr1)
         | (Inr sources, tr1) \<Rightarrow>
             callGenerateAnswer env ctx (rawContext searchResults) sources (pageNumbersOf ctx) tr1)
      else
        (case rerankAndCompress env ctx searchResults tr of
           (Inl e, tr1) \<Rightarrow> (Inl e, tr1)
         | (Inr (rerankedResults, compressedContext), tr1) \<Rightarrow>
             (case gradeDocuments env ctx rerankedResults tr1 of
                (relevantDocuments, tr2) \<Rightarrow>
                  (case callBuildSources env relevantDocuments rerankedResults
                          (indexedDocuments ctx) tr2 of
                     (Inl e, tr3) \<Rightarrow> (Inl e, tr3)
                   | (Inr sources, tr3) \<Rightarrow>
                       (case callGenerateAnswer env ctx compressedContext sources
                               (pageNumbersOf ctx) tr3 of
                          (Inr response, tr4) \<Rightarrow> (Inr response, tr4)
                        | (Inl responseError, tr4) \<Rightarrow> callFallback env (query ctx) tr4)))))"

section \<open>The four pipelines\<close>

text \<open>
  \<^verbatim>\<open>executeFastVectorPipeline\<close>, \<^verbatim>\<open>executeStandardPipeline\<close> and
  \<^verbatim>\<open>executeExpandedPipeline\<close> have the same body up to the strategy tag; their
  handlers log and rethrow.
\<close>

definition executeVectorPipeline ::
  "SearchStrategy \<Rightarrow> Environment \<Rightarrow> PipelineContext \<Rightarrow> call list \<Rightarrow> Response outcome" where
  "executeVectorPipeline strategy env ctx tr =
     (let searchQueries = buildQueriesForStrategy ctx strategy in
      case performVectorSearch env searchQueries ctx strategy tr of
        (searchResults, tr1) \<Rightarrow>
          if searchResults = [] then callFallback env (query ctx) tr1
          else executeSharedProcessingPipeline env ctx searchResults strategy tr1)"

definition executeFastVectorPipeline ::
  "Environment \<Rightarrow> PipelineContext \<Rightarrow> call list \<Rightarrow> Response outcome" where
  "executeFastVectorPipeline = executeVectorPipeline FastVectorSearch"

definition executeStandardPipeline ::
  "Environment \<Rightarrow> PipelineContext \<Rightarrow> call list \<Rightarrow> Response outcome" where
  "executeStandardPipeline = executeVectorPipeline StandardVectorSearch"

definition executeExpandedPipeline ::
  "Environment \<Rightarrow> PipelineContext \<Rightarrow> call list \<Rightarrow> Response outcome" where
  "executeExpandedPipeline = executeVectorPipeline ExpandedSearch"

definition noPageContentMessage :: string where
  "noPageContentMessage =
     ''I couldn't find any content on the requested page. The page might not exist or may not have been indexed yet.''"

definition executePageQueryPipeline ::
  "Environment \<Rightarrow> PipelineContext \<Rightarrow> call list \<Rightarrow> Response outcome" where
  "executePageQueryPipeline env ctx tr =
     (let searchQueries = [query ctx] in
      case performVectorSearch env searchQueries ctx PageQueryStrategy tr of
        (searchResults, tr1) \<Rightarrow>
          if searchResults = [] then callFallback env noPageContentMessage tr1
          else
            (case callBuildSources env (map (\<lambda>r. Graded (pageGraded r)) searchResults)
                    searchResults (indexedDocuments ctx) tr1 of
               (Inl e, tr2) \<Rightarrow> (Inl e, tr2)
             | (Inr sources, tr2) \<Rightarrow>
                 (let contextText = rawContext searchResults;
                      validPages = (case pageNumbersOf ctx of None \<Rightarrow> [] | Some ps \<Rightarrow> ps)
                  in callGenerateAnswer env ctx contextText sources (Some validPages) tr2)))"

fun executeStrategyPipeline ::
  "SearchStrategy \<Rightarrow> Environment \<Rightarrow> PipelineContext \<Rightarrow> call list \<Rightarrow> Response outcome" where
  "executeStrategyPipeline FastVectorSearch = executeFastVectorPipeline"
| "executeStrategyPipeline StandardVectorSearch = executeStandardPipeline"
| "executeStrategyPipeline ExpandedSearch = executeExpandedPipeline"
| "executeStrategyPipeline PageQueryStrategy = executePageQueryPipeline"

section \<open>The entry operation\<close>

text \<open>
  Modelled from the spec: \<^verbatim>\<open>RAGError.create\<close> and \<^verbatim>\<open>RAGError.withErrorHandling\<close>
  live in \<^verbatim>\<open>lib/rag/errors\<close>, which is not among the sources. The disposed error is an
  \<^verbatim>\<open>Error\<close> carrying its code, and the wrapper hands the outcome of the operation to
  the caller as it is (the spec lets the disposed and the cancellation error cross the
  boundary unchanged).
\<close>

definition serviceDisposed :: thrown where
  "serviceDisposed = Error ''RAGError'' ''serviceDisposed''"

definition withErrorHandling :: "'a outcome \<Rightarrow> 'a outcome" where
  "withErrorHandling operation = operation"

text \<open>\<^verbatim>\<open>const pipelineSignal = abortSignal || timeoutSignal\<close>.\<close>

definition pipelineSignal :: "AbortSignal option \<Rightarrow> nat \<Rightarrow> AbortSignal" where
  "pipelineSignal abortSignal ms =
     (let timeoutSignal = AbortSignal_timeout ms in
      case abortSignal of Some s \<Rightarrow> s | None \<Rightarrow> timeoutSignal)"

definition tookTooLongMessage :: string where
  "tookTooLongMessage =
     ''The request took too long to process. Please try a simpler query or try again later.''"

text \<open>\<^verbatim>\<open>abortSignal?.aborted\<close>, read at time \<open>now\<close>.\<close>

definition callerAborted :: "AbortSignal option \<Rightarrow> nat \<Rightarrow> bool" where
  "callerAborted abortSignal now = (case abortSignal of None \<Rightarrow> False | Some s \<Rightarrow> aborted s now)"

text \<open>The test of the first branch of the handler in \<^verbatim>\<open>processQuery\<close>.\<close>

definition isAbortError :: "thrown \<Rightarrow> AbortSignal option \<Rightarrow> nat \<Rightarrow> bool" where
  "isAbortError e abortSignal now =
     (instanceofError e
      \<and> (name e = ''AbortError'' \<or> String_includes (message e) ''aborted''
           \<or> callerAborted abortSignal now))"

text \<open>
  The handler of \<^verbatim>\<open>processQuery\<close>. \<open>now\<close> is the time, in milliseconds after the
  call began, at which it runs.
\<close>

definition handlePipelineError ::
  "Environment \<Rightarrow> string \<Rightarrow> AbortSignal option \<Rightarrow> nat \<Rightarrow> thrown \<Rightarrow> call list
     \<Rightarrow> Response outcome" where
  "handlePipelineError env q abortSignal now e tr =
     (if isAbortError e abortSignal now then (Inl e, tr)
      else if instanceofError e \<and> name e = ''TimeoutError'' then
        callFallback env tookTooLongMessage tr
      else callFallback env q tr)"

text \<open>The body of the \<^verbatim>\<open>try\<close> block: page validation, then the pipeline of the strategy.\<close>

definition validateAndRun ::
  "Environment \<Rightarrow> SearchStrategy \<Rightarrow> PipelineContext \<Rightarrow> Response outcome" where
  "validateAndRun env strategy ctx =
     (if hasPageNumbers ctx then
        (let pageValidation =
               validatePagesAgainstDocuments
                 (case queryExtraction ctx of None \<Rightarrow> [] | Some qe \<Rightarrow> pageNumbers qe)
                 (indexedDocuments ctx)
         in case errorMessage pageValidation of
              Some msg \<Rightarrow>
                if \<not> isValid pageValidation \<and> msg \<noteq> [] then callFallback env msg []
                else executeStrategyPipeline strategy env ctx []
            | None \<Rightarrow> executeStrategyPipeline strategy env ctx [])
      else executeStrategyPipeline strategy env ctx [])"

text \<open>
  \<^verbatim>\<open>processQuery\<close>. The defaulted parameters \<^verbatim>\<open>strategy\<close> and \<^verbatim>\<open>timeoutMs\<close> are
  options, \<open>None\<close> standing for an omitted argument.
\<close>

definition processQuery ::
  "Environment \<Rightarrow> bool \<Rightarrow> string \<Rightarrow> string \<Rightarrow> AccessibleDocument list \<Rightarrow> UIMessage list
     \<Rightarrow> SearchStrategy option \<Rightarrow> Intent \<Rightarrow> ComplexityAnalysis option \<Rightarrow> QueryExtraction option
     \<Rightarrow> nat option \<Rightarrow> AbortSignal option \<Rightarrow> string option \<Rightarrow> nat \<Rightarrow> Response outcome" where
  "processQuery env isDisposed q scopeId docs history strategyArg intentArg complexity
     extractionArg timeoutArg abortSignal sessionId now =
     withErrorHandling
       (if isDisposed then (Inl serviceDisposed, [])
        else
          (let strategy = (case strategyArg of None \<Rightarrow> StandardVectorSearch | Some s \<Rightarrow> s);
               ms = (case timeoutArg of None \<Rightarrow> 50000 | Some t \<Rightarrow> t);
               ctx = \<lparr>query = q, dataroomId = scopeId, indexedDocuments = docs,
                      messages = history, signal = Some (pipelineSignal abortSignal ms),
                      complexityAnalysis = complexity, queryExtraction = extractionArg,
                      intent = intentArg, chatSessionId = sessionId\<rparr>
           in case validateAndRun env strategy ctx of
                (Inr result, tr) \<Rightarrow> (Inr result, tr)
              | (Inl e, tr) \<Rightarrow> handlePipelineError env q abortSignal now e tr))"

section \<open>Reading the record of invocations\<close>

fun isFallback :: "call \<Rightarrow> bool" where
  "isFallback (Fallback m) = True"
| "isFallback c = False"

text \<open>The context text handed to answer generation, the first argument of source building, and the signal handed to a collaborator.\<close>

fun contextTextOf :: "call \<Rightarrow> string option" where
  "contextTextOf (GenerateAnswer c h q srcs sg sid pages) = Some c"
| "contextTextOf c = None"

fun gradedArgumentOf :: "call \<Rightarrow> RelevantDocument list option" where
  "gradedArgumentOf (BuildSources rel rs docs) = Some rel"
| "gradedArgumentOf c = None"

fun signalOf :: "call \<Rightarrow> AbortSignal option" where
  "signalOf (Search q d ids sg opts f) = sg"
| "signalOf (Rerank q rs sg) = sg"
| "signalOf (Compress rs q sg ca) = sg"
| "signalOf (GenerateAnswer c h q srcs sg sid pages) = sg"
| "signalOf c = None"

text \<open>
  The variants a strategy searches with: \<^verbatim>\<open>[context.query]\<close> in
  \<^verbatim>\<open>executePageQueryPipeline\<close>, \<^verbatim>\<open>buildQueriesForStrategy\<close> in the other three.
\<close>

definition variantsIssued :: "PipelineContext \<Rightarrow> SearchStrategy \<Rightarrow> string list" where
  "variantsIssued ctx strategy =
     (if strategy = PageQueryStrategy then [query ctx] else buildQueriesForStrategy ctx strategy)"

section \<open>Scenario data\<close>

text \<open>Concrete requests and collaborators on which the theorems below are exercised.\<close>

definition chunk :: "string \<Rightarrow> string \<Rightarrow> SearchResult" where
  "chunk cid txt =
     \<lparr>documentId = ''doc-1'', chunkId = cid, content = txt, similarity = None, metadata = []\<rparr>"

definition tenPageDocument :: AccessibleDocument where
  "tenPageDocument =
     \<lparr>doc_documentId = ''doc-1'', documentName = Some ''Lease.pdf'', numPages = Some 10\<rparr>"

definition pagelessDocument :: AccessibleDocument where
  "pagelessDocument =
     \<lparr>doc_documentId = ''doc-2'', documentName = Some ''Scan.pdf'', numPages = None\<rparr>"

definition plainSettings :: RAGSearchSettings where
  "plainSettings =
     \<lparr>fastTopK = 5, fastSimilarityThreshold = 1 / 2, standardTopK = 10,
      standardSimilarityThreshold = 1 / 2, expandedTopK = 15,
      expandedSimilarityThreshold = 1 / 2, pageQueryTopK = 5,
      pageQuerySimilarityThreshold = 1 / 2, pageQueryTimeoutMs = 30000\<rparr>"

text \<open>
  Every collaborator answers: the search finds two chunks, the reranker reverses its
  input, the fallback generator streams the text it was given.
\<close>

definition answeringEnv :: Environment where
  "answeringEnv =
     \<lparr>ragSearchSettings = plainSettings,
      performVectorSearchInternal =
        (\<lambda>q d ids sg opts f. (100, Inr [chunk ''c1'' ''alpha'', chunk ''c2'' ''beta''])),
      rerankResults = (\<lambda>q rs sg. Inr (rev rs)),
      compressContext = (\<lambda>rs q sg ca. Inr ''compressed''),
      gradeAndFilterDocuments = (\<lambda>q rs ca. Inr (map fastGraded rs)),
      buildSources = (\<lambda>rel rs docs. Inr (map chunkId rs)),
      generateAnswer = (\<lambda>c h q srcs sg sid pages. Inr (StreamingResponse ''answer'')),
      createFallbackResponse = (\<lambda>m. Inr (StreamingResponse m))\<rparr>"

text \<open>Variations: a search that finds nothing, and one failing collaborator each.\<close>

definition silentSearchEnv :: Environment where
  "silentSearchEnv =
     answeringEnv\<lparr>performVectorSearchInternal := (\<lambda>q d ids sg opts f. (100, Inr []))\<rparr>"

definition compressionFailsEnv :: Environment where
  "compressionFailsEnv =
     answeringEnv\<lparr>compressContext :=
       (\<lambda>rs q sg ca. Inl (Error ''Error'' ''compression unavailable''))\<rparr>"

definition gradingFailsEnv :: Environment where
  "gradingFailsEnv =
     answeringEnv\<lparr>gradeAndFilterDocuments :=
       (\<lambda>q rs ca. Inl (Error ''Error'' ''grading unavailable''))\<rparr>"

text \<open>The error with which Node.js rejects work whose \<^verbatim>\<open>AbortSignal.timeout\<close> signal fired.\<close>

definition timeoutError :: thrown where
  "timeoutError = Error ''TimeoutError'' ''The operation was aborted due to timeout''"

definition timingOutEnv :: Environment where
  "timingOutEnv = answeringEnv\<lparr>rerankResults := (\<lambda>q rs sg. Inl timeoutError)\<rparr>"

definition terminationQuery :: string where
  "terminationQuery = ''What is the termination clause?''"

definition plainContext :: PipelineContext where
  "plainContext =
     \<lparr>query = terminationQuery, dataroomId = ''room-1'', indexedDocuments = [tenPageDocument],
      messages = [], signal = Some (AbortSignal_timeout 50000), complexityAnalysis = None,
      queryExtraction = None, intent = general_inquiry, chatSessionId = None\<rparr>"

definition page15Extraction :: QueryExtraction where
  "page15Extraction = \<lparr>pageNumbers = [15], keywords' = [], queryRewriting = None\<rparr>"

definition page15Message :: string where
  "page15Message =
     ''Page 15 doesn't exist in your documents. The available documents (Lease.pdf) have 10 pages (pages 1-10). Try asking about content within that range.''"

text \<open>Nineteen different rewritten queries and a required hypothetical answer.\<close>

definition rewrites19 :: "string option list" where
  "rewrites19 = map (\<lambda>c. Some (''variant '' @ [c])) ''abcdefghijklmnopqrs''"

definition hydeContext :: PipelineContext where
  "hydeContext =
     plainContext\<lparr>queryExtraction :=
       Some \<lparr>pageNumbers = [], keywords' = [],
             queryRewriting =
               Some \<lparr>rewrittenQueries = Some rewrites19,
                     hydeAnswer = Some ''The lease ends after ninety days of notice.'',
                     requiresHyde = True\<rparr>\<rparr>\<rparr>"

text \<open>A caller's signal that is never aborted.\<close>

definition neverAborting :: AbortSignal where
  "neverAborting = \<lparr>abortsAt = None\<rparr>"

section \<open>Unfolding the model on concrete requests\<close>

lemmas scenario_defs = answeringEnv_def plainSettings_def chunk_def tenPageDocument_def
  terminationQuery_def plainContext_def pagelessDocument_def silentSearchEnv_def
  compressionFailsEnv_def gradingFailsEnv_def timingOutEnv_def timeoutError_def
  page15Extraction_def page15Message_def neverAborting_def

lemmas run_defs = processQuery_def withErrorHandling_def validateAndRun_def hasPageNumbers_def
  executeFastVectorPipeline_def executeStandardPipeline_def executeExpandedPipeline_def
  executeVectorPipeline_def executePageQueryPipeline_def executeSharedProcessingPipeline_def
  performVectorSearch_def searchVariant_def searchCall_def raceAgainstTimeout_def
  filterArgument_def buildMetadataFilter_def Object_keys_length_def
  removeDuplicateResults_def callFallback_def callBuildSources_def callGenerateAnswer_def
  rerankAndCompress_def gradeDocuments_def rawContext_def pageNumbersOf_def
  handlePipelineError_def isAbortError_def callerAborted_def pipelineSignal_def
  buildQueriesForStrategy_def rewrittenPart_def hydePart_def rewritingOf_def
  trim_def isWhitespace_def Array_from_Set_def Set_add_def variantsIssued_def
  MAX_FAST_QUERIES_def MAX_STANDARD_QUERIES_def MAX_EXPANDED_QUERIES_def

lemmas validate_defs = validatePagesAgainstDocuments_def numPagesOr0_def
  documentNameOrUnknown_def rangeMessage_def

lemma toString_examples:
  "toString 3 = ''3''" "toString 10 = ''10''" "toString 15 = ''15''"
  by (simp_all add: toString_def digits.simps digit_def)

section \<open>Deduplication of the merged results\<close>

lemma filterSeen_distinct:
  "distinct (map chunkId (filterSeen seen rs)) \<and> chunkId ` set (filterSeen seen rs) \<inter> seen = {}"
  by (induction rs arbitrary: seen) auto

lemma filterSeen_fresh: "r \<in> set (filterSeen seen rs) \<Longrightarrow> chunkId r \<notin> seen"
  using filterSeen_distinct [of seen rs] by blast

lemma filterSeen_ids: "chunkId ` set (filterSeen seen rs) = chunkId ` set rs - seen"
  by (induction rs arbitrary: seen) auto

lemma filterSeen_subseq: "subseq (filterSeen seen rs) rs"
  by (induction rs arbitrary: seen) auto

lemma filterSeen_first:
  "r \<in> set (filterSeen seen rs) \<Longrightarrow> find (\<lambda>x. chunkId x = chunkId r) rs = Some r"
proof (induction rs arbitrary: seen)
  case Nil
  then show ?case by simp
next
  case (Cons x xs)
  show ?case
  proof (cases "chunkId x \<in> seen")
    case True
    with Cons.prems have r: "r \<in> set (filterSeen seen xs)" by simp
    then have "chunkId r \<notin> seen" by (rule filterSeen_fresh)
    with True have "chunkId x \<noteq> chunkId r" by auto
    with Cons.IH [OF r] show ?thesis by simp
  next
    case False
    with Cons.prems consider "r = x" | "r \<in> set (filterSeen (insert (chunkId x) seen) xs)"
      by auto
    then show ?thesis
    proof cases
      case 1
      then show ?thesis by simp
    next
      case 2
      then have "chunkId r \<notin> insert (chunkId x) seen" by (rule filterSeen_fresh)
      then have "chunkId r \<noteq> chunkId x" by simp
      with Cons.IH [OF 2] show ?thesis by auto
    qed
  qed
qed

lemma filterSeen_unchanged:
  "distinct (map chunkId rs) \<Longrightarrow> chunkId ` set rs \<inter> seen = {} \<Longrightarrow> filterSeen seen rs = rs"
  by (induction rs arbitrary: seen) auto

text \<open>
  Claim C3. The retrieval fan-in returns the deduplication of the per-variant lists
  concatenated in the order the variants were issued. For every list \<open>rss\<close> of
  per-variant lists, the merged result has at most one entry per chunk id; each entry
  kept is the first entry of the concatenation with its chunk id; no chunk id is lost;
  the kept entries stand in the order of the concatenation; and when all chunk ids
  differ, nothing is removed.
\<close>

theorem merged_results_deduplicated:
  "fst (performVectorSearch env qs ctx strategy tr) =
     removeDuplicateResults (concat (map (searchVariant env ctx strategy) qs))
   \<and> distinct (map chunkId (removeDuplicateResults (concat rss)))
   \<and> (\<forall>r \<in> set (removeDuplicateResults (concat rss)).
         find (\<lambda>x. chunkId x = chunkId r) (concat rss) = Some r)
   \<and> chunkId ` set (removeDuplicateResults (concat rss)) = chunkId ` set (concat rss)
   \<and> subseq (removeDuplicateResults (concat rss)) (concat rss)
   \<and> (distinct (map chunkId (concat rss)) \<longrightarrow> removeDuplicateResults (concat rss) = concat rss)"
  unfolding removeDuplicateResults_def
  using filterSeen_distinct [of "{}" "concat rss"] filterSeen_ids [of "{}" "concat rss"]
    filterSeen_subseq [of "{}" "concat rss"] filterSeen_first [of _ "{}" "concat rss"]
    filterSeen_unchanged [of "concat rss" "{}"]
  by (simp add: performVectorSearch_def Let_def removeDuplicateResults_def)

text \<open>
  Two variants that both return chunk \<open>c1\<close>: the entry of the first variant is kept. Two
  variants with different chunks: both entries are kept.
\<close>

theorem merged_results_deduplicated_witness:
  "removeDuplicateResults
     (concat [[chunk ''c1'' ''alpha'', chunk ''c2'' ''beta''],
              [chunk ''c1'' ''alpha again'', chunk ''c3'' ''gamma'']])
     = [chunk ''c1'' ''alpha'', chunk ''c2'' ''beta'', chunk ''c3'' ''gamma'']
   \<and> chunk ''c1'' ''alpha''
       \<in> set (removeDuplicateResults
                (concat [[chunk ''c1'' ''alpha'', chunk ''c2'' ''beta''],
                         [chunk ''c1'' ''alpha again'', chunk ''c3'' ''gamma'']]))
   \<and> find (\<lambda>x. chunkId x = chunkId (chunk ''c1'' ''alpha''))
        (concat [[chunk ''c1'' ''alpha'', chunk ''c2'' ''beta''],
                 [chunk ''c1'' ''alpha again'', chunk ''c3'' ''gamma'']])
       = Some (chunk ''c1'' ''alpha'')
   \<and> distinct (map chunkId (concat [[chunk ''c1'' ''alpha''], [chunk ''c2'' ''beta'']]))
   \<and> removeDuplicateResults (concat [[chunk ''c1'' ''alpha''], [chunk ''c2'' ''beta'']])
       = [chunk ''c1'' ''alpha'', chunk ''c2'' ''beta'']
   \<and> fst (performVectorSearch answeringEnv [terminationQuery] plainContext
            StandardVectorSearch [])
       = [chunk ''c1'' ''alpha'', chunk ''c2'' ''beta'']"
  using
    merged_results_deduplicated [of answeringEnv "[terminationQuery]" plainContext
      StandardVectorSearch "[]"
      "[[chunk ''c1'' ''alpha'', chunk ''c2'' ''beta''],
        [chunk ''c1'' ''alpha again'', chunk ''c3'' ''gamma'']]"]
    merged_results_deduplicated [of answeringEnv "[terminationQuery]" plainContext
      StandardVectorSearch "[]" "[[chunk ''c1'' ''alpha''], [chunk ''c2'' ''beta'']]"]
  by (simp add: removeDuplicateResults_def chunk_def searchVariant_def raceAgainstTimeout_def
      answeringEnv_def plainSettings_def)

section \<open>Number of query variants\<close>

lemma Set_add_length: "length (foldl Set_add acc xs) \<le> length acc + length xs"
proof (induction xs arbitrary: acc)
  case Nil
  then show ?case by simp
next
  case (Cons x xs)
  have "length (foldl Set_add (Set_add acc x) xs) \<le> length (Set_add acc x) + length xs"
    by (rule Cons.IH)
  also have "length (Set_add acc x) \<le> length acc + 1"
    by (simp add: Set_add_def)
  finally show ?case by simp
qed

lemma Array_from_Set_length: "length (Array_from_Set xs) \<le> length xs"
  using Set_add_length [of "[]" xs] by (simp add: Array_from_Set_def)

lemma map_filter_take_length: "length (List.map_filter id (take k rq)) \<le> k"
proof -
  have "length (List.map_filter id (take k rq)) \<le> length (take k rq)"
    unfolding map_filter_def by (simp del: length_take)
  also have "\<dots> \<le> k" by simp
  finally show ?thesis .
qed

lemma rewrittenPart_length: "length (rewrittenPart ctx n) \<le> n - 1"
  by (simp add: rewrittenPart_def map_filter_take_length split: option.splits)

lemma hydePart_length:
  "length (hydePart ctx strategy) \<le> (if strategy = ExpandedSearch then 1 else 0)"
  by (simp add: hydePart_def split: option.splits)

lemma buildQueries_length:
  "length (buildQueriesForStrategy ctx strategy)
     \<le> getMaxQueriesForStrategy strategy + (if strategy = ExpandedSearch then 1 else 0)"
proof -
  let ?qs = "[query ctx] @ rewrittenPart ctx (getMaxQueriesForStrategy strategy)
               @ hydePart ctx strategy"
  have "length (buildQueriesForStrategy ctx strategy)
          \<le> length (filter (\<lambda>q. q \<noteq> []) (map trim ?qs))"
    unfolding buildQueriesForStrategy_def Let_def by (rule Array_from_Set_length)
  also have "\<dots> \<le> length ?qs"
    using length_filter_le [of "\<lambda>q. q \<noteq> []" "map trim ?qs"] by simp
  also have "\<dots> \<le> 1 + (getMaxQueriesForStrategy strategy - 1)
                    + (if strategy = ExpandedSearch then 1 else 0)"
    using rewrittenPart_length [of ctx "getMaxQueriesForStrategy strategy"]
      hydePart_length [of ctx strategy]
    by simp
  also have "\<dots> = getMaxQueriesForStrategy strategy
                    + (if strategy = ExpandedSearch then 1 else 0)"
    by (cases strategy)
      (simp_all add: MAX_FAST_QUERIES_def MAX_STANDARD_QUERIES_def MAX_EXPANDED_QUERIES_def)
  finally show ?thesis .
qed

text \<open>
  The bounds the code does keep: three variants on the fast path, fifteen on the standard
  path, and twenty-one (not twenty) on the expanded path.
\<close>

theorem variant_bounds:
  "length (buildQueriesForStrategy ctx FastVectorSearch) \<le> 3
   \<and> length (buildQueriesForStrategy ctx StandardVectorSearch) \<le> 15
   \<and> length (buildQueriesForStrategy ctx ExpandedSearch) \<le> 21"
  using buildQueries_length [of ctx FastVectorSearch]
    buildQueries_length [of ctx StandardVectorSearch]
    buildQueries_length [of ctx ExpandedSearch]
  by (simp add: MAX_FAST_QUERIES_def MAX_STANDARD_QUERIES_def MAX_EXPANDED_QUERIES_def)

text \<open>The page pipeline searches once, with the raw query.\<close>

theorem page_query_single_variant:
  "filter isSearch (snd (executePageQueryPipeline env ctx []))
     = [searchCall env ctx PageQueryStrategy (query ctx)]
   \<and> searchCall env ctx PageQueryStrategy (query ctx) =
       Search (query ctx) (dataroomId ctx) (map doc_documentId (indexedDocuments ctx))
         (signal ctx)
         (topK (getSearchConfig (ragSearchSettings env) PageQueryStrategy),
          similarityThreshold (getSearchConfig (ragSearchSettings env) PageQueryStrategy))
         (filterArgument ctx)"
proof -
  have s: "isSearch (searchCall env ctx PageQueryStrategy (query ctx))"
    by (simp add: searchCall_def Let_def)
  have "filter isSearch (snd (executePageQueryPipeline env ctx []))
     = [searchCall env ctx PageQueryStrategy (query ctx)]"
  proof (cases "buildSources env
        (map (\<lambda>r. Graded (pageGraded r))
           (removeDuplicateResults (searchVariant env ctx PageQueryStrategy (query ctx))))
        (removeDuplicateResults (searchVariant env ctx PageQueryStrategy (query ctx)))
        (indexedDocuments ctx)")
    case (Inl e)
    with s show ?thesis
      by (simp add: executePageQueryPipeline_def performVectorSearch_def Let_def
          callFallback_def callBuildSources_def callGenerateAnswer_def)
  next
    case (Inr sources)
    with s show ?thesis
      by (simp add: executePageQueryPipeline_def performVectorSearch_def Let_def
          callFallback_def callBuildSources_def callGenerateAnswer_def)
  qed
  then show ?thesis by (simp add: searchCall_def Let_def)
qed

text \<open>
  Claim C4. The variant list is said to hold at most 3, 15 and 20 entries for the fast,
  standard and expanded strategies, the hypothetical answer included. The slice reserves
  one slot for the original query only; the hypothetical answer of \<open>ExpandedSearch\<close> is
  appended after it. With nineteen different rewritten queries and a required
  hypothetical answer the expanded list has 21 entries, one more than
  \<open>MAX_EXPANDED_QUERIES\<close>.
\<close>

theorem expanded_variants_exceed_limit:
  "length (buildQueriesForStrategy hydeContext ExpandedSearch) = 21
   \<and> MAX_EXPANDED_QUERIES = 20
   \<and> last (buildQueriesForStrategy hydeContext ExpandedSearch)
       = ''The lease ends after ninety days of notice.''"
  by (simp add: buildQueriesForStrategy_def hydeContext_def rewrites19_def plainContext_def
      rewrittenPart_def hydePart_def rewritingOf_def MAX_EXPANDED_QUERIES_def map_filter_def
      trim_def isWhitespace_def terminationQuery_def Array_from_Set_def Set_add_def)

section \<open>Scope of a search call\<close>

lemma performVectorSearch_trace:
  "snd (performVectorSearch env qs ctx strategy tr) = tr @ map (searchCall env ctx strategy) qs"
  by (simp add: performVectorSearch_def Let_def)

text \<open>
  Claim C8, as amended. Every search call receives the dataroom id and the ids of the
  allow-listed documents as arguments of their own. A metadata filter is passed exactly
  when the query extraction holds explicit page numbers; it then carries the dataroom
  id, the document ids (when there are documents) and the page numbers as page ranges.
  Without explicit page numbers no filter is passed, so the call is not restricted to
  pages.
\<close>

theorem search_call_scope:
  "snd (performVectorSearch env qs ctx strategy tr) = tr @ map (searchCall env ctx strategy) qs
   \<and> searchCall env ctx strategy q =
       Search q (dataroomId ctx) (map doc_documentId (indexedDocuments ctx)) (signal ctx)
         (topK (getSearchConfig (ragSearchSettings env) strategy),
          similarityThreshold (getSearchConfig (ragSearchSettings env) strategy))
         (if hasPageNumbers ctx then
            Some \<lparr>filter_documentIds =
                    (if indexedDocuments ctx = [] then None
                     else Some (map doc_documentId (indexedDocuments ctx))),
                  pageRanges = map_option (map toString) (pageNumbersOf ctx),
                  filter_dataroomId = Some (dataroomId ctx)\<rparr>
          else None)"
  by (simp add: performVectorSearch_trace searchCall_def filterArgument_def buildMetadataFilter_def
      hasPageNumbers_def pageNumbersOf_def Object_keys_length_def Let_def split: option.splits)

text \<open>A request for page 3 of the ten-page document: the filter carries the page range.\<close>

theorem search_call_scope_witness:
  "hasPageNumbers (plainContext\<lparr>queryExtraction :=
       Some \<lparr>pageNumbers = [3], keywords' = [], queryRewriting = None\<rparr>\<rparr>)
   \<and> searchCall answeringEnv
       (plainContext\<lparr>queryExtraction :=
          Some \<lparr>pageNumbers = [3], keywords' = [], queryRewriting = None\<rparr>\<rparr>)
       PageQueryStrategy terminationQuery =
       Search terminationQuery ''room-1'' [''doc-1''] (Some (AbortSignal_timeout 50000))
         (5, 1 / 2)
         (Some \<lparr>filter_documentIds = Some [''doc-1''], pageRanges = Some [''3''],
                filter_dataroomId = Some ''room-1''\<rparr>)"
  using search_call_scope [of answeringEnv "[]"
      "plainContext\<lparr>queryExtraction :=
         Some \<lparr>pageNumbers = [3], keywords' = [], queryRewriting = None\<rparr>\<rparr>"
      PageQueryStrategy "[]" terminationQuery]
  by (simp add: hasPageNumbers_def pageNumbersOf_def scenario_defs toString_examples)

text \<open>
  Against the claim as stated: a query without page numbers is searched with no metadata
  filter at all, so the filter does not scope by dataroom id and document ids.
\<close>

theorem unfiltered_search_counterexample:
  "snd (performVectorSearch answeringEnv [terminationQuery] plainContext
          StandardVectorSearch [])
     = [Search terminationQuery ''room-1'' [''doc-1''] (Some (AbortSignal_timeout 50000))
          (10, 1 / 2) None]"
  by (simp add: run_defs scenario_defs Let_def)

section \<open>The cancellation signal\<close>

text \<open>
  Claim C9. The effective signal is said to fire when the caller cancels or when
  \<open>timeoutMs\<close> elapses, also when a caller signal is supplied. With a caller signal that
  is never aborted and a timeout of 50000 ms, the signal handed to the collaborators is
  the caller's signal: it is not aborted at 50000 ms, although the timer signal is.
\<close>

theorem caller_signal_disables_timeout:
  "pipelineSignal (Some neverAborting) 50000 = neverAborting
   \<and> \<not> aborted (pipelineSignal (Some neverAborting) 50000) 50000
   \<and> aborted (AbortSignal_timeout 50000) 50000
   \<and> List.map_filter signalOf
        (snd (processQuery answeringEnv False terminationQuery ''room-1'' [tenPageDocument] []
                (Some FastVectorSearch) general_inquiry None None (Some 50000)
                (Some neverAborting) None 60000))
       = [neverAborting, neverAborting]"
  by (simp add: run_defs scenario_defs aborted_def AbortSignal_timeout_def map_filter_def
      Let_def)

section \<open>Retrieval without results\<close>

lemma performVectorSearch_empty:
  assumes "\<forall>q \<in> set qs. searchVariant env ctx strategy q = []"
  shows "performVectorSearch env qs ctx strategy tr
           = ([], tr @ map (searchCall env ctx strategy) qs)"
proof -
  from assms have c: "concat (map (searchVariant env ctx strategy) qs) = []" by simp
  show ?thesis unfolding performVectorSearch_def Let_def removeDuplicateResults_def c by simp
qed

lemma searchCall_not_refinement:
  "filter isRefinement (map (searchCall env ctx strategy) qs) = []"
  by (induction qs) (simp_all add: searchCall_def Let_def)

lemma executeVectorPipeline_empty:
  assumes "\<forall>q \<in> set (buildQueriesForStrategy ctx strategy).
             searchVariant env ctx strategy q = []"
  shows "executeVectorPipeline strategy env ctx tr =
     callFallback env (query ctx)
       (tr @ map (searchCall env ctx strategy) (buildQueriesForStrategy ctx strategy))"
  using performVectorSearch_empty [OF assms, of tr]
  by (simp add: executeVectorPipeline_def Let_def)

lemma executePageQueryPipeline_empty:
  assumes "searchVariant env ctx PageQueryStrategy (query ctx) = []"
  shows "executePageQueryPipeline env ctx tr =
     callFallback env noPageContentMessage
       (tr @ [searchCall env ctx PageQueryStrategy (query ctx)])"
proof -
  from assms have "\<forall>q \<in> set [query ctx]. searchVariant env ctx PageQueryStrategy q = []"
    by simp
  from performVectorSearch_empty [OF this, of tr]
  show ?thesis by (simp add: executePageQueryPipeline_def Let_def)
qed

text \<open>
  Claim C7, as amended. When every variant a strategy searches with yields nothing, the
  pipeline calls the search collaborator once per variant and then the fallback
  generator, and returns what the generator yields; reranking, compression and grading
  are never invoked. The fallback is built from the raw query text for the fast,
  standard and expanded strategies, and from a fixed message about the requested page
  for the page strategy.
\<close>

theorem zero_results_fallback:
  assumes "\<forall>q \<in> set (variantsIssued ctx strategy). searchVariant env ctx strategy q = []"
  shows "executeStrategyPipeline strategy env ctx [] =
           (createFallbackResponse env
              (if strategy = PageQueryStrategy then noPageContentMessage else query ctx),
            map (searchCall env ctx strategy) (variantsIssued ctx strategy)
            @ [Fallback (if strategy = PageQueryStrategy then noPageContentMessage
                         else query ctx)])
         \<and> filter isRefinement (snd (executeStrategyPipeline strategy env ctx [])) = []"
proof (cases strategy)
  case FastVectorSearch
  with assms show ?thesis
    using executeVectorPipeline_empty [of ctx strategy env "[]"]
    by (simp add: variantsIssued_def executeFastVectorPipeline_def callFallback_def
        searchCall_not_refinement)
next
  case StandardVectorSearch
  with assms show ?thesis
    using executeVectorPipeline_empty [of ctx strategy env "[]"]
    by (simp add: variantsIssued_def executeStandardPipeline_def callFallback_def
        searchCall_not_refinement)
next
  case ExpandedSearch
  with assms show ?thesis
    using executeVectorPipeline_empty [of ctx strategy env "[]"]
    by (simp add: variantsIssued_def executeExpandedPipeline_def callFallback_def
        searchCall_not_refinement)
next
  case PageQueryStrategy
  with assms show ?thesis
    using executePageQueryPipeline_empty [of env ctx "[]"]
    by (simp add: variantsIssued_def callFallback_def searchCall_def Let_def)
qed

text \<open>A search that finds nothing, on the standard and on the page strategy.\<close>

theorem zero_results_fallback_witness:
  "variantsIssued plainContext StandardVectorSearch = [terminationQuery]
   \<and> searchVariant silentSearchEnv plainContext StandardVectorSearch terminationQuery = []
   \<and> executeStrategyPipeline StandardVectorSearch silentSearchEnv plainContext [] =
       (Inr (StreamingResponse terminationQuery),
        [Search terminationQuery ''room-1'' [''doc-1''] (Some (AbortSignal_timeout 50000))
           (10, 1 / 2) None,
         Fallback terminationQuery])
   \<and> variantsIssued plainContext PageQueryStrategy = [terminationQuery]
   \<and> searchVariant silentSearchEnv plainContext PageQueryStrategy terminationQuery = []
   \<and> executeStrategyPipeline PageQueryStrategy silentSearchEnv plainContext [] =
       (Inr (StreamingResponse noPageContentMessage),
        [Search terminationQuery ''room-1'' [''doc-1''] (Some (AbortSignal_timeout 50000))
           (5, 1 / 2) None,
         Fallback noPageContentMessage])"
  using zero_results_fallback [of plainContext StandardVectorSearch silentSearchEnv]
    zero_results_fallback [of plainContext PageQueryStrategy silentSearchEnv]
  by (simp add: run_defs scenario_defs Let_def)

text \<open>
  Against the claim as stated: on the page strategy the fallback for an empty retrieval
  is built from the fixed message, which does not contain the raw query text.
\<close>

theorem page_query_zero_results_counterexample:
  "searchVariant silentSearchEnv plainContext PageQueryStrategy (query plainContext) = []
   \<and> filter isFallback (snd (executePageQueryPipeline silentSearchEnv plainContext []))
       = [Fallback noPageContentMessage]
   \<and> noPageContentMessage \<noteq> query plainContext
   \<and> \<not> String_includes noPageContentMessage (query plainContext)"
  by (simp add: run_defs scenario_defs noPageContentMessage_def Let_def)

section \<open>Degraded refinement\<close>

lemma rerankAndCompress_compression_failed:
  assumes "compressContext env searchResults (query ctx) (signal ctx) (complexityAnalysis ctx)
             = Inl compressionError"
    and "rerankResults env (query ctx) searchResults (signal ctx) = Inr rerankedResults"
  shows "rerankAndCompress env ctx searchResults tr =
           (Inr (rerankedResults, rawContext searchResults),
            tr @ [Rerank (query ctx) searchResults (signal ctx),
                  Compress searchResults (query ctx) (signal ctx) (complexityAnalysis ctx),
                  Rerank (query ctx) searchResults (signal ctx)])"
  using assms by (simp add: rerankAndCompress_def Let_def)

lemma gradeDocuments_trace:
  "snd (gradeDocuments env ctx rr tr) = tr @ [Grade (query ctx) rr (complexityAnalysis ctx)]"
  by (simp add: gradeDocuments_def)

lemma gradeDocuments_result:
  "fst (gradeDocuments env ctx rr tr) = fst (gradeDocuments env ctx rr [])"
  by (simp add: gradeDocuments_def)

text \<open>
  Claim C5, as amended. On the standard and expanded paths, when compression fails and
  reranking succeeds, the run goes on (through grading and, when source building
  succeeds, to answer generation, whose failure gives the fallback on the raw query).
  The context text passed to answer generation is the concatenation, joined by blank
  lines, of the contents of the retrieved chunks in retrieval order, that is of the
  list the compressor was given, whatever order the reranker returned.
\<close>

theorem compression_failure_context:
  assumes "strategyName \<noteq> FastVectorSearch"
    and "compressContext env searchResults (query ctx) (signal ctx) (complexityAnalysis ctx)
           = Inl compressionError"
    and "rerankResults env (query ctx) searchResults (signal ctx) = Inr rerankedResults"
    and "buildSources env (fst (gradeDocuments env ctx rerankedResults [])) rerankedResults
           (indexedDocuments ctx) = Inr sources"
  shows "List.map_filter contextTextOf
           (snd (executeSharedProcessingPipeline env ctx searchResults strategyName []))
           = [rawContext searchResults]
         \<and> fst (executeSharedProcessingPipeline env ctx searchResults strategyName []) =
             (case generateAnswer env (rawContext searchResults) (messages ctx) (query ctx)
                     sources (signal ctx) (chatSessionId ctx) (pageNumbersOf ctx) of
                Inr response \<Rightarrow> Inr response
              | Inl responseError \<Rightarrow> createFallbackResponse env (query ctx))"
proof -
  obtain rel tr2 where g: "gradeDocuments env ctx rerankedResults
      [Rerank (query ctx) searchResults (signal ctx),
       Compress searchResults (query ctx) (signal ctx) (complexityAnalysis ctx),
       Rerank (query ctx) searchResults (signal ctx)] = (rel, tr2)"
    by (cases "gradeDocuments env ctx rerankedResults
      [Rerank (query ctx) searchResults (signal ctx),
       Compress searchResults (query ctx) (signal ctx) (complexityAnalysis ctx),
       Rerank (query ctx) searchResults (signal ctx)]") blast
  have rel: "rel = fst (gradeDocuments env ctx rerankedResults [])"
    using g gradeDocuments_result [of env ctx rerankedResults] by (metis fst_conv)
  have tr2: "tr2 = [Rerank (query ctx) searchResults (signal ctx),
       Compress searchResults (query ctx) (signal ctx) (complexityAnalysis ctx),
       Rerank (query ctx) searchResults (signal ctx),
       Grade (query ctx) rerankedResults (complexityAnalysis ctx)]"
    using g gradeDocuments_trace [of env ctx rerankedResults] by (metis snd_conv append.simps)
  have b: "buildSources env rel rerankedResults (indexedDocuments ctx) = Inr sources"
    using assms(4) rel by simp
  show ?thesis
  proof (cases "generateAnswer env (rawContext searchResults) (messages ctx) (query ctx)
                     sources (signal ctx) (chatSessionId ctx) (pageNumbersOf ctx)")
    case (Inl e)
    then show ?thesis
      using assms(1) b g
        rerankAndCompress_compression_failed [OF assms(2) assms(3), of "[]"]
      by (simp add: executeSharedProcessingPipeline_def callBuildSources_def
          callGenerateAnswer_def callFallback_def tr2 map_filter_def)
  next
    case (Inr r)
    then show ?thesis
      using assms(1) b g
        rerankAndCompress_compression_failed [OF assms(2) assms(3), of "[]"]
      by (simp add: executeSharedProcessingPipeline_def callBuildSources_def
          callGenerateAnswer_def callFallback_def tr2 map_filter_def)
  qed
qed

text \<open>Two chunks, a reranker that reverses them, a compressor that fails.\<close>

theorem compression_failure_context_witness:
  "StandardVectorSearch \<noteq> FastVectorSearch
   \<and> compressContext compressionFailsEnv [chunk ''c1'' ''alpha'', chunk ''c2'' ''beta'']
        (query plainContext) (signal plainContext) (complexityAnalysis plainContext)
       = Inl (Error ''Error'' ''compression unavailable'')
   \<and> rerankResults compressionFailsEnv (query plainContext)
        [chunk ''c1'' ''alpha'', chunk ''c2'' ''beta''] (signal plainContext)
       = Inr [chunk ''c2'' ''beta'', chunk ''c1'' ''alpha'']
   \<and> buildSources compressionFailsEnv
        (fst (gradeDocuments compressionFailsEnv plainContext
                [chunk ''c2'' ''beta'', chunk ''c1'' ''alpha''] []))
        [chunk ''c2'' ''beta'', chunk ''c1'' ''alpha''] (indexedDocuments plainContext)
       = Inr [''c2'', ''c1'']
   \<and> List.map_filter contextTextOf
        (snd (executeSharedProcessingPipeline compressionFailsEnv plainContext
                [chunk ''c1'' ''alpha'', chunk ''c2'' ''beta''] StandardVectorSearch []))
       = [''alpha'' @ [CHR 0x0A, CHR 0x0A] @ ''beta'']
   \<and> fst (executeSharedProcessingPipeline compressionFailsEnv plainContext
            [chunk ''c1'' ''alpha'', chunk ''c2'' ''beta''] StandardVectorSearch [])
       = Inr (StreamingResponse ''answer'')"
  using compression_failure_context [of StandardVectorSearch compressionFailsEnv
      "[chunk ''c1'' ''alpha'', chunk ''c2'' ''beta'']" plainContext
      "Error ''Error'' ''compression unavailable''"
      "[chunk ''c2'' ''beta'', chunk ''c1'' ''alpha'']" "[''c2'', ''c1'']"]
  by (simp add: run_defs scenario_defs map_filter_def Let_def)

text \<open>
  Against the claim as stated: the reranked order is beta, alpha, and the context text
  passed to answer generation is alpha, blank line, beta.
\<close>

theorem compression_failure_counterexample:
  "rerankResults compressionFailsEnv (query plainContext)
     [chunk ''c1'' ''alpha'', chunk ''c2'' ''beta''] (signal plainContext)
     = Inr [chunk ''c2'' ''beta'', chunk ''c1'' ''alpha'']
   \<and> rawContext [chunk ''c2'' ''beta'', chunk ''c1'' ''alpha'']
       = ''beta'' @ [CHR 0x0A, CHR 0x0A] @ ''alpha''
   \<and> List.map_filter contextTextOf
        (snd (executeSharedProcessingPipeline compressionFailsEnv plainContext
                [chunk ''c1'' ''alpha'', chunk ''c2'' ''beta''] StandardVectorSearch []))
       = [''alpha'' @ [CHR 0x0A, CHR 0x0A] @ ''beta'']
   \<and> ''alpha'' @ [CHR 0x0A, CHR 0x0A] @ ''beta'' \<noteq> ''beta'' @ [CHR 0x0A, CHR 0x0A] @ ''alpha''"
  by (simp add: run_defs scenario_defs map_filter_def Let_def)

text \<open>
  Claim C6. When grading throws, every reranked result is said to reach source building
  as a graded document with \<open>isRelevant = true\<close>. The handler assigns the reranked search
  results themselves to \<^verbatim>\<open>relevantDocuments\<close>: source building receives the full
  reranked list, but its elements are search results, which carry no \<open>isRelevant\<close>
  field. The fast path, on the same chunks, synthesises graded documents that do.
\<close>

theorem grading_failure_passes_raw_results:
  "gradeAndFilterDocuments gradingFailsEnv (query plainContext)
     [chunk ''c2'' ''beta'', chunk ''c1'' ''alpha''] (complexityAnalysis plainContext)
     = Inl (Error ''Error'' ''grading unavailable'')
   \<and> List.map_filter gradedArgumentOf
        (snd (executeSharedProcessingPipeline gradingFailsEnv plainContext
                [chunk ''c1'' ''alpha'', chunk ''c2'' ''beta''] StandardVectorSearch []))
       = [[Raw (chunk ''c2'' ''beta''), Raw (chunk ''c1'' ''alpha'')]]
   \<and> map isRelevant_of [Raw (chunk ''c2'' ''beta''), Raw (chunk ''c1'' ''alpha'')]
       = [None, None]
   \<and> List.map_filter gradedArgumentOf
        (snd (executeSharedProcessingPipeline gradingFailsEnv plainContext
                [chunk ''c1'' ''alpha'', chunk ''c2'' ''beta''] FastVectorSearch []))
       = [[Graded (fastGraded (chunk ''c1'' ''alpha'')),
           Graded (fastGraded (chunk ''c2'' ''beta''))]]
   \<and> map isRelevant_of
        [Graded (fastGraded (chunk ''c1'' ''alpha'')),
         Graded (fastGraded (chunk ''c2'' ''beta''))]
       = [Some True, Some True]"
  by (simp add: run_defs scenario_defs map_filter_def fastGraded_def Let_def)

section \<open>What a validation message mentions\<close>

lemma String_includes_sublist: "String_includes s sub \<longleftrightarrow> sublist sub s"
  by (induction s) (simp_all add: sublist_Cons_right)

lemma join_mentions: "x \<in> set xs \<Longrightarrow> sublist x (join xs sep)"
proof (induction xs sep rule: join.induct)
  case (1 sep)
  then show ?case by simp
next
  case (2 x' sep)
  then show ?case by simp
next
  case (3 x' y ys sep)
  show ?case
  proof (cases "x = x'")
    case True
    then show ?thesis by simp
  next
    case False
    with 3 have "sublist x (join (y # ys) sep)" by simp
    then have "sublist x ((x' @ sep) @ join (y # ys) sep)"
      by (meson sublist_append)
    then show ?thesis by simp
  qed
qed

lemma rangeMessage_mentions_list: "sublist l (rangeMessage plural l names m)"
proof -
  have "rangeMessage plural l names m =
      (if plural then ''Pages '' else ''Page '') @ l @
      ((if plural then '' don't exist in your documents. The available documents (''
        else '' doesn't exist in your documents. The available documents ('')
     @ names @ '') have '' @ toString m @ '' page''
     @ (if m = 1 then [] else ''s'')
     @ '' (pages 1-'' @ toString m
     @ ''). Try asking about content within that range.'')"
    unfolding rangeMessage_def by (simp only: append_assoc)
  then show ?thesis by (simp only: sublist_appendI)
qed

lemma rangeMessage_mentions_range:
  "sublist (''(pages 1-'' @ toString m @ '')'') (rangeMessage plural l names m)"
proof -
  have "rangeMessage plural l names m =
      ((if plural then ''Pages '' else ''Page '') @ l @
      (if plural then '' don't exist in your documents. The available documents (''
        else '' doesn't exist in your documents. The available documents ('')
     @ names @ '') have '' @ toString m @ '' page''
     @ (if m = 1 then [] else ''s'') @ '' '')
     @ (''(pages 1-'' @ toString m @ '')'')
     @ ''. Try asking about content within that range.''"
    unfolding rangeMessage_def by simp
  then show ?thesis by (simp only: sublist_appendI)
qed

lemma rangeMessage_mentions_max: "sublist (toString m) (rangeMessage plural l names m)"
proof -
  have "sublist (toString m) (''(pages 1-'' @ toString m @ '')'')"
    by (rule sublist_appendI)
  from this rangeMessage_mentions_range [of m plural l names] show ?thesis
    by (rule sublist_order.order.trans)
qed

lemma rangeMessage_nonempty: "rangeMessage plural l names m \<noteq> []"
  by (simp add: rangeMessage_def)

section \<open>Requests for pages that cannot be served\<close>

lemma fold_max_Max:
  "fold max (map numPagesOr0 ds) (numPagesOr0 d) = Max (numPagesOr0 ` set (d # ds))"
  using Max.set_eq_fold [of "numPagesOr0 d" "map numPagesOr0 ds"] by simp

lemma validate_out_of_range:
  assumes "docs \<noteq> []" and "Max (numPagesOr0 ` set docs) \<noteq> 0"
    and "filter (\<lambda>page. page < 1 \<or> page > Max (numPagesOr0 ` set docs)) pages \<noteq> []"
  shows "validatePagesAgainstDocuments pages docs =
     \<lparr>isValid = False,
      errorMessage = Some (rangeMessage
        (length (filter (\<lambda>page. page < 1 \<or> page > Max (numPagesOr0 ` set docs)) pages) \<noteq> 1)
        (join (map toString
                 (filter (\<lambda>page. page < 1 \<or> page > Max (numPagesOr0 ` set docs)) pages))
           '', '')
        (join (map documentNameOrUnknown docs) '', '')
        (Max (numPagesOr0 ` set docs)))\<rparr>"
proof -
  from assms(1) obtain d ds where docs: "docs = d # ds" by (cases docs) auto
  from assms(3) have pages: "pages \<noteq> []" by auto
  show ?thesis
    using assms(2,3) pages unfolding docs validatePagesAgainstDocuments_def fold_max_Max Let_def
    by simp
qed

lemma validate_no_page_count:
  assumes "pages \<noteq> []" and "docs = [] \<or> (\<forall>d \<in> set docs. numPagesOr0 d \<le> 0)"
  shows "\<not> isValid (validatePagesAgainstDocuments pages docs)
    \<and> (\<exists>m. errorMessage (validatePagesAgainstDocuments pages docs) = Some m \<and> m \<noteq> [])"
proof (cases docs)
  case Nil
  with assms(1) show ?thesis by (simp add: validatePagesAgainstDocuments_def)
next
  case (Cons d ds)
  with assms(2) have le: "\<forall>x \<in> set (d # ds). numPagesOr0 x \<le> 0" by simp
  have fin: "finite (numPagesOr0 ` set (d # ds))" and ne: "numPagesOr0 ` set (d # ds) \<noteq> {}"
    by simp_all
  from le have "Max (numPagesOr0 ` set (d # ds)) \<le> 0"
    using Max_le_iff [OF fin ne, of 0] by blast
  then have all:
    "filter (\<lambda>page. page < 1 \<or> page > Max (numPagesOr0 ` set (d # ds))) pages = pages"
    by (intro filter_True) auto
  show ?thesis
    using assms(1) all unfolding Cons validatePagesAgainstDocuments_def fold_max_Max Let_def
    by (simp add: rangeMessage_nonempty)
qed

text \<open>A failed validation ends the call before any pipeline runs.\<close>

lemma processQuery_invalid_pages:
  assumes "\<not> isDisposed" and "extractionArg = Some qe" and "pageNumbers qe \<noteq> []"
    and "\<not> isValid (validatePagesAgainstDocuments (pageNumbers qe) docs)"
    and "errorMessage (validatePagesAgainstDocuments (pageNumbers qe) docs) = Some m"
    and "m \<noteq> []"
  shows "processQuery env isDisposed q scopeId docs history strategyArg intentArg complexity
           extractionArg timeoutArg abortSignal sessionId now =
         (case createFallbackResponse env m of
            Inr r \<Rightarrow> (Inr r, [Fallback m])
          | Inl e \<Rightarrow> handlePipelineError env q abortSignal now e [Fallback m])"
  using assms
  by (simp add: processQuery_def withErrorHandling_def validateAndRun_def hasPageNumbers_def
      callFallback_def Let_def split: sum.splits)

lemma handlePipelineError_after_fallback:
  "take 1 (snd (handlePipelineError env q abortSignal now e [Fallback m])) = [Fallback m]
   \<and> filter isSearch (snd (handlePipelineError env q abortSignal now e [Fallback m])) = []"
  by (simp add: handlePipelineError_def callFallback_def)

lemma short_circuit:
  assumes "\<not> isDisposed" and "extractionArg = Some qe" and "pageNumbers qe \<noteq> []"
    and "\<not> isValid (validatePagesAgainstDocuments (pageNumbers qe) docs)"
    and "errorMessage (validatePagesAgainstDocuments (pageNumbers qe) docs) = Some m"
    and "m \<noteq> []"
  shows "take 1 (snd (processQuery env isDisposed q scopeId docs history strategyArg intentArg
           complexity extractionArg timeoutArg abortSignal sessionId now)) = [Fallback m]
     \<and> filter isSearch (snd (processQuery env isDisposed q scopeId docs history strategyArg
           intentArg complexity extractionArg timeoutArg abortSignal sessionId now)) = []
     \<and> (\<forall>r. createFallbackResponse env m = Inr r \<longrightarrow>
           processQuery env isDisposed q scopeId docs history strategyArg intentArg
             complexity extractionArg timeoutArg abortSignal sessionId now
           = (Inr r, [Fallback m]))"
proof (cases "createFallbackResponse env m")
  case (Inl e)
  with processQuery_invalid_pages [OF assms, of env q scopeId history strategyArg intentArg
      complexity timeoutArg abortSignal sessionId now]
    handlePipelineError_after_fallback [of env q abortSignal now e m]
  show ?thesis by simp
next
  case (Inr r)
  with processQuery_invalid_pages [OF assms, of env q scopeId history strategyArg intentArg
      complexity timeoutArg abortSignal sessionId now]
  show ?thesis by simp
qed

text \<open>
  Claim C10. When the query extraction carries at least one page number and the list of
  documents is empty, or no document in it has a positive page count, validation fails:
  the first collaborator invoked is the fallback generator, on the message of the
  validation; the search collaborator is never invoked; and the call returns the answer
  the generator yields.
\<close>

theorem missing_page_counts_short_circuit:
  assumes "\<not> isDisposed" and "extractionArg = Some qe" and "pageNumbers qe \<noteq> []"
    and "docs = [] \<or> (\<forall>d \<in> set docs. numPagesOr0 d \<le> 0)"
  shows "\<not> isValid (validatePagesAgainstDocuments (pageNumbers qe) docs)
     \<and> filter isSearch (snd (processQuery env isDisposed q scopeId docs history strategyArg
           intentArg complexity extractionArg timeoutArg abortSignal sessionId now)) = []
     \<and> (\<exists>m. errorMessage (validatePagesAgainstDocuments (pageNumbers qe) docs) = Some m
           \<and> take 1 (snd (processQuery env isDisposed q scopeId docs history strategyArg
                 intentArg complexity extractionArg timeoutArg abortSignal sessionId now))
               = [Fallback m]
           \<and> (\<forall>r. createFallbackResponse env m = Inr r \<longrightarrow>
                 processQuery env isDisposed q scopeId docs history strategyArg intentArg
                   complexity extractionArg timeoutArg abortSignal sessionId now
                 = (Inr r, [Fallback m])))"
proof -
  from validate_no_page_count [OF assms(3,4)] obtain m
    where v: "\<not> isValid (validatePagesAgainstDocuments (pageNumbers qe) docs)"
      and m: "errorMessage (validatePagesAgainstDocuments (pageNumbers qe) docs) = Some m"
      and ne: "m \<noteq> []"
    by blast
  from short_circuit [OF assms(1,2,3) v m ne, of env q scopeId history strategyArg intentArg
      complexity timeoutArg abortSignal sessionId now] v m
  show ?thesis by blast
qed

text \<open>Page 15 asked of two documents without a page count, and of no document at all.\<close>

theorem missing_page_counts_short_circuit_witness:
  "\<not> False
   \<and> pageNumbers page15Extraction \<noteq> []
   \<and> numPagesOr0 pagelessDocument \<le> 0
   \<and> processQuery answeringEnv False terminationQuery ''room-1''
        [pagelessDocument, pagelessDocument] [] (Some StandardVectorSearch) general_inquiry
        None (Some page15Extraction) None None None 0
       = (Inr (StreamingResponse ''Documents have no page information available''),
          [Fallback ''Documents have no page information available''])
   \<and> processQuery answeringEnv False terminationQuery ''room-1'' [] []
        (Some StandardVectorSearch) general_inquiry None (Some page15Extraction) None None None 0
       = (Inr (StreamingResponse ''No documents available to validate pages against''),
          [Fallback ''No documents available to validate pages against''])"
  using missing_page_counts_short_circuit [of False "Some page15Extraction" page15Extraction
      "[pagelessDocument, pagelessDocument]" answeringEnv terminationQuery "''room-1''"
      "[]" "Some StandardVectorSearch" general_inquiry None None None None 0]
    missing_page_counts_short_circuit [of False "Some page15Extraction" page15Extraction
      "[]" answeringEnv terminationQuery "''room-1''"
      "[]" "Some StandardVectorSearch" general_inquiry None None None None 0]
  by (simp add: run_defs scenario_defs validate_defs toString_examples Let_def)

text \<open>
  Claim C2, as amended. When the query extraction carries page numbers, some document
  has page information (the maximum page count over the documents is not zero) and some
  requested page lies outside 1 .. maximum, the first collaborator invoked is the
  fallback generator, on a message that lists the offending page numbers and gives the
  maximum page count and the range of pages; the search collaborator is never invoked;
  and the call returns the answer the generator yields.
\<close>

theorem out_of_range_pages_short_circuit:
  assumes "\<not> isDisposed" and "extractionArg = Some qe" and "docs \<noteq> []"
    and "maxPages = Max (numPagesOr0 ` set docs)" and "maxPages \<noteq> 0"
    and "invalidPages = filter (\<lambda>page. page < 1 \<or> page > maxPages) (pageNumbers qe)"
    and "invalidPages \<noteq> []"
    and "msg = rangeMessage (length invalidPages \<noteq> 1) (join (map toString invalidPages) '', '')
                 (join (map documentNameOrUnknown docs) '', '') maxPages"
  shows "take 1 (snd (processQuery env isDisposed q scopeId docs history strategyArg intentArg
           complexity extractionArg timeoutArg abortSignal sessionId now)) = [Fallback msg]
     \<and> filter isSearch (snd (processQuery env isDisposed q scopeId docs history strategyArg
           intentArg complexity extractionArg timeoutArg abortSignal sessionId now)) = []
     \<and> (\<forall>r. createFallbackResponse env msg = Inr r \<longrightarrow>
           processQuery env isDisposed q scopeId docs history strategyArg intentArg
             complexity extractionArg timeoutArg abortSignal sessionId now
           = (Inr r, [Fallback msg]))
     \<and> (\<forall>page \<in> set invalidPages. String_includes msg (toString page))
     \<and> String_includes msg (toString maxPages)
     \<and> String_includes msg (''(pages 1-'' @ toString maxPages @ '')'')"
proof -
  from assms(6,7) have pages: "pageNumbers qe \<noteq> []" by auto
  have v: "validatePagesAgainstDocuments (pageNumbers qe) docs =
      \<lparr>isValid = False, errorMessage = Some msg\<rparr>"
    using validate_out_of_range [of docs "pageNumbers qe"] assms(3-8) by simp
  then have iv: "\<not> isValid (validatePagesAgainstDocuments (pageNumbers qe) docs)"
    and em: "errorMessage (validatePagesAgainstDocuments (pageNumbers qe) docs) = Some msg"
    by simp_all
  have ne: "msg \<noteq> []" unfolding assms(8) by (rule rangeMessage_nonempty)
  have mention: "\<forall>page \<in> set invalidPages. String_includes msg (toString page)"
  proof
    fix page assume "page \<in> set invalidPages"
    then have "toString page \<in> set (map toString invalidPages)" by simp
    then have "sublist (toString page) (join (map toString invalidPages) '', '')"
      by (rule join_mentions)
    from this rangeMessage_mentions_list
    have "sublist (toString page) msg" unfolding assms(8)
      by (rule sublist_order.order.trans)
    then show "String_includes msg (toString page)" by (simp add: String_includes_sublist)
  qed
  from short_circuit [OF assms(1,2) pages iv em ne, of env q scopeId history strategyArg
      intentArg complexity timeoutArg abortSignal sessionId now] mention
    rangeMessage_mentions_max [of maxPages] rangeMessage_mentions_range [of maxPages]
  show ?thesis unfolding assms(8) String_includes_sublist by blast
qed

text \<open>Page 15 asked of a document of ten pages: the message mentions 15 and 10.\<close>

theorem out_of_range_pages_short_circuit_witness:
  "\<not> False
   \<and> [tenPageDocument] \<noteq> []
   \<and> (10::int) = Max (numPagesOr0 ` set [tenPageDocument])
   \<and> [15] = filter (\<lambda>page. page < 1 \<or> page > 10) (pageNumbers page15Extraction)
   \<and> page15Message = rangeMessage (length [15::int] \<noteq> 1) (join (map toString [15]) '', '')
                 (join (map documentNameOrUnknown [tenPageDocument]) '', '') 10
   \<and> processQuery answeringEnv False terminationQuery ''room-1'' [tenPageDocument] []
        (Some StandardVectorSearch) general_inquiry None (Some page15Extraction) None None None 0
       = (Inr (StreamingResponse page15Message), [Fallback page15Message])
   \<and> String_includes page15Message ''15''
   \<and> String_includes page15Message ''10''
   \<and> String_includes page15Message ''(pages 1-10)''"
proof -
  have h1: "\<not> False" by simp
  have h2: "Some page15Extraction = Some page15Extraction" by simp
  have h3: "[tenPageDocument] \<noteq> []" by simp
  have h4: "(10::int) = Max (numPagesOr0 ` set [tenPageDocument])"
    by (simp add: numPagesOr0_def tenPageDocument_def)
  have h5: "(10::int) \<noteq> 0" by simp
  have h6: "[15] = filter (\<lambda>page. page < 1 \<or> page > 10) (pageNumbers page15Extraction)"
    by (simp add: page15Extraction_def)
  have h7: "[15::int] \<noteq> []" by simp
  have h8: "page15Message =
      rangeMessage (length [15::int] \<noteq> 1) (join (map toString [15]) '', '')
        (join (map documentNameOrUnknown [tenPageDocument]) '', '') 10"
    by (simp add: page15Message_def rangeMessage_def toString_examples documentNameOrUnknown_def
        tenPageDocument_def)
  note run = out_of_range_pages_short_circuit [OF h1 h2 h3 h4 h5 h6 h7 h8,
      of answeringEnv terminationQuery "''room-1''" "[]" "Some StandardVectorSearch"
        general_inquiry None None None None 0]
  have fb: "createFallbackResponse answeringEnv page15Message
              = Inr (StreamingResponse page15Message)"
    by (simp add: answeringEnv_def)
  from run fb have r: "processQuery answeringEnv False terminationQuery ''room-1''
        [tenPageDocument] [] (Some StandardVectorSearch) general_inquiry None
        (Some page15Extraction) None None None 0
       = (Inr (StreamingResponse page15Message), [Fallback page15Message])"
    by blast
  from run have m15: "String_includes page15Message ''15''"
    by (simp add: toString_examples)
  from run have m10: "String_includes page15Message ''10''"
    and rg: "String_includes page15Message ''(pages 1-10)''"
    by (simp_all add: toString_examples)
  from h3 h4 h6 h8 r m15 m10 rg show ?thesis by blast
qed

text \<open>
  Against the claim as stated: the only document has no page count, so the maximum page
  count is 0 and page 15 is out of range; the fallback is built from a fixed message
  that mentions neither the page number nor a range.
\<close>

theorem page_validation_message_counterexample:
  "Max (numPagesOr0 ` set [pagelessDocument]) = 0
   \<and> pageNumbers page15Extraction = [15]
   \<and> processQuery answeringEnv False terminationQuery ''room-1'' [pagelessDocument] []
        (Some StandardVectorSearch) general_inquiry None (Some page15Extraction) None None None 0
       = (Inr (StreamingResponse ''Documents have no page information available''),
          [Fallback ''Documents have no page information available''])
   \<and> \<not> String_includes ''Documents have no page information available'' (toString 15)"
  by (simp add: run_defs scenario_defs validate_defs toString_examples Let_def)

section \<open>Errors that reach the handler of the entry operation\<close>

text \<open>
  Claim C1. Only the disposed error and caller cancellations are said to leave
  \<^verbatim>\<open>processQuery\<close> as errors, a thrown \<open>TimeoutError\<close> becoming the fixed answer that
  the request took too long. The handler tests for an abort first, and that test also
  accepts any error whose message contains the word aborted. On the standard path, with
  no caller signal at all, let reranking fail with the error of the pipeline's own timer
  (name \<open>TimeoutError\<close>, message ending in aborted due to timeout): the call rethrows it
  and the fallback generator is never invoked.
\<close>

theorem timeout_error_rethrown:
  "processQuery timingOutEnv False terminationQuery ''room-1'' [tenPageDocument] []
     (Some StandardVectorSearch) general_inquiry None None None None None 50000
     = (Inl timeoutError,
        [Search terminationQuery ''room-1'' [''doc-1''] (Some (AbortSignal_timeout 50000))
           (10, 1 / 2) None,
         Rerank terminationQuery [chunk ''c1'' ''alpha'', chunk ''c2'' ''beta'']
           (Some (AbortSignal_timeout 50000)),
         Compress [chunk ''c1'' ''alpha'', chunk ''c2'' ''beta''] terminationQuery
           (Some (AbortSignal_timeout 50000)) None,
         Rerank terminationQuery [chunk ''c1'' ''alpha'', chunk ''c2'' ''beta'']
           (Some (AbortSignal_timeout 50000))])
   \<and> instanceofError timeoutError
   \<and> name timeoutError = ''TimeoutError''
   \<and> message timeoutError = ''The operation was aborted due to timeout''
   \<and> callerAborted None 50000 = False"
  by (simp add: run_defs scenario_defs Let_def)

end
